theory Spec2Isabelle
  imports Complex_Main "HOL-Library.Sublist" "HOL-Library.Monad_Syntax"
begin

section \<open>Python values\<close>

text \<open>
  The pipeline of \<^verbatim>\<open>deck-gen.py\<close> passes around what \<^verbatim>\<open>json.loads\<close> returns:
  \<^verbatim>\<open>None\<close>, booleans, integers, floats, strings, lists and dictionaries with string
  keys. A dictionary is an association list read with \<open>map_of\<close>; a string is a list of
  8-bit characters, of which only the ASCII ones are interpreted.
\<close>

datatype pyfloat = Finite rat | PosInf | NegInf | NaN

datatype json =
    JNull
  | JBool bool
  | JInt int
  | JFloat pyfloat
  | JStr string
  | JArr "json list"
  | JObj "(string \<times> json) list"

datatype pyerr = TypeError | AttributeError | KeyError | IndexError

text \<open>\<^verbatim>\<open>sub in s\<close> on two strings: \<open>sub\<close> occurs in \<open>s\<close> as a contiguous block.\<close>

fun contains :: "string \<Rightarrow> string \<Rightarrow> bool" where
  "contains [] sub = (sub = [])"
| "contains (c # cs) sub = (prefix sub (c # cs) \<or> contains cs sub)"

text \<open>Truth value of an object in a condition (\<^verbatim>\<open>if x:\<close>, \<^verbatim>\<open>not x\<close>).\<close>

fun truthy :: "json \<Rightarrow> bool" where
  "truthy JNull = False"
| "truthy (JBool b) = b"
| "truthy (JInt i) = (i \<noteq> 0)"
| "truthy (JFloat f) = (f \<noteq> Finite 0)"
| "truthy (JStr s) = (s \<noteq> [])"
| "truthy (JArr xs) = (xs \<noteq> [])"
| "truthy (JObj d) = (d \<noteq> [])"

text \<open>\<^verbatim>\<open>k in x\<close> for a string \<open>k\<close>: key membership on a dictionary, element membership
  on a list, substring test on a string, \<^verbatim>\<open>TypeError\<close> on everything else.\<close>

fun py_in :: "string \<Rightarrow> json \<Rightarrow> pyerr + bool" where
  "py_in k (JObj d) = Inr (map_of d k \<noteq> None)"
| "py_in k (JArr xs) = Inr (List.member xs (JStr k))"
| "py_in k (JStr s) = Inr (contains s k)"
| "py_in k _ = Inl TypeError"

text \<open>\<^verbatim>\<open>x[k]\<close> for a string \<open>k\<close>.\<close>

fun py_getitem :: "json \<Rightarrow> string \<Rightarrow> pyerr + json" where
  "py_getitem (JObj d) k = (case map_of d k of None \<Rightarrow> Inl KeyError | Some v \<Rightarrow> Inr v)"
| "py_getitem _ k = Inl TypeError"

text \<open>\<^verbatim>\<open>x[0]\<close>.\<close>

fun py_getitem0 :: "json \<Rightarrow> pyerr + json" where
  "py_getitem0 (JArr []) = Inl IndexError"
| "py_getitem0 (JArr (v # vs)) = Inr v"
| "py_getitem0 (JStr []) = Inl IndexError"
| "py_getitem0 (JStr (c # cs)) = Inr (JStr [c])"
| "py_getitem0 (JObj d) = Inl KeyError"
| "py_getitem0 _ = Inl TypeError"

text \<open>\<^verbatim>\<open>x.get(k, default)\<close>: the value of the key if the dictionary has it, whatever
  that value is, and the default otherwise. Only a dictionary has the method.\<close>

definition dict_get :: "(string \<times> json) list \<Rightarrow> string \<Rightarrow> json \<Rightarrow> json" where
  "dict_get d k dflt = (case map_of d k of None \<Rightarrow> dflt | Some v \<Rightarrow> v)"

fun py_get :: "json \<Rightarrow> string \<Rightarrow> json \<Rightarrow> pyerr + json" where
  "py_get (JObj d) k dflt = Inr (dict_get d k dflt)"
| "py_get _ k dflt = Inl AttributeError"

text \<open>\<^verbatim>\<open>for v in x\<close>: the elements of a list, the characters of a string, the keys of a
  dictionary; the other values are not iterable.\<close>

fun py_iter :: "json \<Rightarrow> pyerr + json list" where
  "py_iter (JArr xs) = Inr xs"
| "py_iter (JStr s) = Inr (map (\<lambda>c. JStr [c]) s)"
| "py_iter (JObj d) = Inr (map JStr (remdups (map fst d)))"
| "py_iter _ = Inl TypeError"

text \<open>Inside a \<^verbatim>\<open>try: ... except Exception\<close> block every error is the same event.\<close>

fun caught :: "pyerr + 'a \<Rightarrow> 'a option" where
  "caught (Inl e) = None"
| "caught (Inr v) = Some v"

subsection \<open>String methods\<close>

text \<open>\<^verbatim>\<open>sep.join(xs)\<close> with the separator \<^verbatim>\<open>" "\<close>.\<close>

fun join :: "string list \<Rightarrow> string" where
  "join [] = []"
| "join [x] = x"
| "join (x # y # ys) = x @ '' '' @ join (y # ys)"

text \<open>The same on a list of objects: \<^verbatim>\<open>join\<close> raises \<^verbatim>\<open>TypeError\<close> on an item that is
  not a string.\<close>

fun as_strs :: "json list \<Rightarrow> string list option" where
  "as_strs [] = Some []"
| "as_strs (JStr s # vs) = map_option ((#) s) (as_strs vs)"
| "as_strs (_ # vs) = None"

definition isspace :: "char \<Rightarrow> bool" where
  "isspace c = (c \<in> {CHR 0x09, CHR 0x0A, CHR 0x0B, CHR 0x0C, CHR 0x0D,
                      CHR 0x1C, CHR 0x1D, CHR 0x1E, CHR 0x1F, CHR '' ''})"

definition strip :: "string \<Rightarrow> string" where
  "strip s = dropWhile isspace (rev (dropWhile isspace (rev s)))"

text \<open>\<^verbatim>\<open>s.replace(old, new)\<close> for a non-empty \<open>old\<close>: the occurrences are replaced from
  the left, without overlap.\<close>

function replace :: "string \<Rightarrow> string \<Rightarrow> string \<Rightarrow> string" where
  "replace [] old new = []"
| "replace (c # cs) old new =
     (if old \<noteq> [] \<and> prefix old (c # cs)
      then new @ replace (drop (length old) (c # cs)) old new
      else c # replace cs old new)"
  by pat_completeness auto
termination
  by (relation "measure (\<lambda>(s, old, new). length s)") auto

section \<open>Configuration and the outside world\<close>

text \<open>
  \<^verbatim>\<open>os.getenv\<close> gives \<^verbatim>\<open>None\<close> for a variable that is not set.
\<close>

record config =
  GOOGLE_SEARCH_API_KEY :: "string option"
  CUSTOM_SEARCH_ENGINE_ID :: "string option"

text \<open>
  The test of lines 51 and 168,
  \<^verbatim>\<open>"YOUR_GOOGLE_SEARCH_API_KEY" in GOOGLE_SEARCH_API_KEY or "YOUR_CSE_ID" in CUSTOM_SEARCH_ENGINE_ID\<close>:
  \<^verbatim>\<open>in\<close> on \<^verbatim>\<open>None\<close> raises \<^verbatim>\<open>TypeError\<close>, and \<^verbatim>\<open>or\<close> does not look at its
  second operand when the first holds.
\<close>

definition keys_not_provided :: "config \<Rightarrow> pyerr + bool" where
  "keys_not_provided cfg =
     (case GOOGLE_SEARCH_API_KEY cfg of
        None \<Rightarrow> Inl TypeError
      | Some key \<Rightarrow>
          if contains key ''YOUR_GOOGLE_SEARCH_API_KEY'' then Inr True
          else (case CUSTOM_SEARCH_ENGINE_ID cfg of
                  None \<Rightarrow> Inl TypeError
                | Some cx \<Rightarrow> Inr (contains cx ''YOUR_CSE_ID'')))"

text \<open>Both variables are set: the test above does not raise.\<close>

definition configured :: "config \<Rightarrow> bool" where
  "configured cfg = (GOOGLE_SEARCH_API_KEY cfg \<noteq> None \<and> CUSTOM_SEARCH_ENGINE_ID cfg \<noteq> None)"


subsection \<open>The rendered deck\<close>

text \<open>
  What the assembler writes through \<^verbatim>\<open>python-pptx\<close>. A slide records the index of its
  layout in \<^verbatim>\<open>prs.slide_layouts\<close>, the text of its title shape, the text put into
  placeholder 1 of a title slide, the text frame of placeholder 1 of the other slides, and
  the picture added to it. The field \<open>paragraphs\<close> holds the paragraphs that
  \<^verbatim>\<open>tf.add_paragraph()\<close> appended after \<^verbatim>\<open>tf.clear()\<close>, in order; sizes are in points.
\<close>

type_synonym bytes = "nat list"

record pptx_paragraph =
  p_text :: string
  p_level :: nat
  p_space_after :: nat
  p_font_size :: nat

datatype auto_size = NONE | SHAPE_TO_FIT_TEXT | TEXT_TO_FIT_SHAPE

record text_frame =
  word_wrap :: bool
  auto_size :: auto_size
  paragraphs :: "pptx_paragraph list"

text \<open>A picture: the PNG stream, and the placeholder whose \<^verbatim>\<open>left\<close>, \<^verbatim>\<open>top\<close>,
  \<^verbatim>\<open>width\<close> and \<^verbatim>\<open>height\<close> it is given.\<close>

record picture =
  pic_stream :: bytes
  pic_placeholder :: nat

record slide =
  layout :: nat
  title_text :: string
  subtitle_text :: "string option"
  body :: "text_frame option"
  picture :: "picture option"

subsection \<open>External calls\<close>

text \<open>
  The effects that the assembly and the main block have on the outside: the HTTP requests
  of the image search, the serialisation \<^verbatim>\<open>prs.save\<close> and the write of the output file.
  They are recorded in order, oldest first. A byte stream that holds a saved presentation
  is identified with the list of slides saved into it.
\<close>

datatype event =
    HttpGet string
  | PrsSave "slide list"
  | FileWrite string "slide list"
  | FileWriteFailed string

record http_response =
  status_ok :: bool
  json_body :: "json option"
  raw_content :: bytes

text \<open>The text of a prompt is a function of the values formatted into it.\<close>

datatype prompt =
    ContentStrategistPrompt string string json
  | VisualAssetPrompt json

text \<open>
  Library functions and remote services, as parameters. \<open>None\<close> stands for an exception
  raised by the call.
  \<^item> \<open>quote\<close> is \<^verbatim>\<open>urllib.parse.quote\<close>, \<open>json_loads\<close> is \<^verbatim>\<open>json.loads\<close>,
    \<open>image_to_png\<close> is \<^verbatim>\<open>Image.open\<close> followed by \<^verbatim>\<open>image.save(..., format='PNG')\<close>.
  \<^item> \<open>ddg_snippets url\<close> is lines 40 to 43: the request, the status check and the texts of
    the \<^verbatim>\<open>result__snippet\<close> links of the page.
  \<^item> \<open>get_json url\<close> is lines 57 to 59: the request, the status check and the decoded body.
  \<^item> \<open>generate_content p\<close> is \<^verbatim>\<open>model.generate_content(p).text\<close>.
  \<^item> \<open>requests_get\<close> is \<^verbatim>\<open>requests.get\<close> during assembly; a URL may be asked for more
    than once there, so the answer depends on the events so far.
  \<^item> \<open>file_write name\<close> tells whether opening and writing the output file succeeds.
  Each of \<open>ddg_snippets\<close>, \<open>get_json\<close>, \<open>file_write\<close> is asked once in a run and
  \<open>generate_content\<close> once for each of its two prompts.
\<close>

record env =
  quote :: "string \<Rightarrow> string"
  json_loads :: "string \<Rightarrow> json option"
  image_to_png :: "bytes \<Rightarrow> bytes option"
  ddg_snippets :: "string \<Rightarrow> string list option"
  get_json :: "string \<Rightarrow> json option"
  generate_content :: "prompt \<Rightarrow> string option"
  requests_get :: "event list \<Rightarrow> string \<Rightarrow> http_response option"
  file_write :: "string \<Rightarrow> bool"

text \<open>A value formatted into an f-string: \<^verbatim>\<open>None\<close> prints as its name.\<close>

fun fmt :: "string option \<Rightarrow> string" where
  "fmt None = ''None''"
| "fmt (Some s) = s"

section \<open>ResearchAgent\<close>

definition search_duckduckgo :: "env \<Rightarrow> string \<Rightarrow> string" where
  "search_duckduckgo env topic =
     (case ddg_snippets env (''https://html.duckduckgo.com/html/?q='' @ quote env topic) of
        None \<Rightarrow> []
      | Some snippets \<Rightarrow> if snippets \<noteq> [] then join (take 3 snippets) else [])"

text \<open>Line 60: \<^verbatim>\<open>[item.get('snippet', '') for item in ...]\<close>.\<close>

fun item_snippets :: "json list \<Rightarrow> json list option" where
  "item_snippets [] = Some []"
| "item_snippets (item # items) =
     do { s \<leftarrow> caught (py_get item ''snippet'' (JStr []));
          ss \<leftarrow> item_snippets items;
          Some (s # ss) }"

text \<open>Lines 56 to 60 of \<^verbatim>\<open>_search_google\<close>: the list \<^verbatim>\<open>snippets\<close>, or an exception.\<close>

definition google_snippets :: "env \<Rightarrow> config \<Rightarrow> string \<Rightarrow> json list option" where
  "google_snippets env cfg topic =
     do { search_results \<leftarrow> get_json env
            (''https://www.googleapis.com/customsearch/v1?key='' @ fmt (GOOGLE_SEARCH_API_KEY cfg)
               @ ''&cx='' @ fmt (CUSTOM_SEARCH_ENGINE_ID cfg) @ ''&q='' @ quote env topic);
          items \<leftarrow> caught (py_get search_results ''items'' (JArr []));
          items \<leftarrow> caught (py_iter items);
          item_snippets items }"

definition search_google :: "env \<Rightarrow> config \<Rightarrow> string \<Rightarrow> pyerr + string" where
  "search_google env cfg topic =
     (case keys_not_provided cfg of
        Inl e \<Rightarrow> Inl e
      | Inr True \<Rightarrow> Inr []
      | Inr False \<Rightarrow>
          Inr (case google_snippets env cfg topic of
                 None \<Rightarrow> []
               | Some snippets \<Rightarrow>
                   if snippets \<noteq> []
                   then (case as_strs (take 3 snippets) of None \<Rightarrow> [] | Some ss \<Rightarrow> join ss)
                   else []))"

definition search_web_for_topic :: "env \<Rightarrow> config \<Rightarrow> string \<Rightarrow> pyerr + string" where
  "search_web_for_topic env cfg topic =
     (let ddg_context = search_duckduckgo env topic in
      case search_google env cfg topic of
        Inl e \<Rightarrow> Inl e
      | Inr google_context \<Rightarrow>
          let combined_context = strip (ddg_context @ '' '' @ google_context) in
          Inr (if combined_context \<noteq> [] then combined_context
               else ''No specific web context found.''))"

section \<open>OrchestratorAgent\<close>

definition create_presentation_plan :: "string \<Rightarrow> string \<Rightarrow> json" where
  "create_presentation_plan topic web_context =
     JObj [(''slides'', JArr [
       JObj [(''type'', JStr ''title_slide''),
             (''purpose'', JStr ''A compelling title for the presentation.'')],
       JObj [(''type'', JStr ''overview_slide''),
             (''purpose'', JStr ''An overview describing key talking points.'')],
       JObj [(''type'', JStr ''key_point_slide''),
             (''purpose'', JStr (''The first key point or trend about '' @ topic @ ''.''))],
       JObj [(''type'', JStr ''key_point_slide''),
             (''purpose'', JStr (''The second key point or argument about '' @ topic @ ''.''))],
       JObj [(''type'', JStr ''key_point_slide''),
             (''purpose'', JStr (''The third key point or trend about '' @ topic @ ''.''))],
       JObj [(''type'', JStr ''key_point_slide''),
             (''purpose'', JStr (''The fourth key point or argument about '' @ topic @ ''.''))],
       JObj [(''type'', JStr ''conclusion_slide''),
             (''purpose'', JStr ''Give Concluding Points.'')]])]"

section \<open>ContentStrategistAgent and VisualAssetAgent\<close>

text \<open>The value \<^verbatim>\<open>None\<close> that the \<^verbatim>\<open>except\<close> branch returns is \<open>JNull\<close>.\<close>

definition generate_presentation_content :: "env \<Rightarrow> string \<Rightarrow> string \<Rightarrow> json \<Rightarrow> json" where
  "generate_presentation_content env topic web_context plan =
     (case generate_content env (ContentStrategistPrompt topic web_context plan) of
        None \<Rightarrow> JNull
      | Some text \<Rightarrow>
          let content_json = replace (replace (strip text) ''```json'' []) ''```'' [] in
          (case json_loads env content_json of None \<Rightarrow> JNull | Some v \<Rightarrow> v))"

definition add_image_queries_to_content :: "env \<Rightarrow> json \<Rightarrow> json" where
  "add_image_queries_to_content env content =
     (case generate_content env (VisualAssetPrompt content) of
        None \<Rightarrow> content
      | Some text \<Rightarrow>
          let enriched_content_json = replace (replace (strip text) ''```json'' []) ''```'' [] in
          (case json_loads env enriched_content_json of None \<Rightarrow> content | Some v \<Rightarrow> v))"

section \<open>PowerPointAssemblyAgent\<close>

text \<open>Lines 179 to 183: the \<^verbatim>\<open>link\<close> of the first item of the search result; \<open>None\<close>
  when line 181 returns or one of the lookups raises.\<close>

definition image_link :: "json \<Rightarrow> json option" where
  "image_link search_results =
     do { has_items \<leftarrow> caught (py_in ''items'' search_results);
          if \<not> has_items then None
          else do {
            items \<leftarrow> caught (py_getitem search_results ''items'');
            if \<not> truthy items then None
            else do {
              item \<leftarrow> caught (py_getitem0 items);
              caught (py_getitem item ''link'') } } }"

text \<open>
  \<^verbatim>\<open>_get_image_for_slide\<close>. The test of the keys is outside the \<^verbatim>\<open>try\<close>; everything
  after it is inside, so that each failure there gives \<^verbatim>\<open>None\<close>. \<^verbatim>\<open>quote\<close> and
  \<^verbatim>\<open>requests.get\<close> raise on an argument that is not a string, before any request is sent.
\<close>

definition image_api_url :: "env \<Rightarrow> config \<Rightarrow> string \<Rightarrow> string" where
  "image_api_url env cfg query =
     ''https://www.googleapis.com/customsearch/v1?key='' @ fmt (GOOGLE_SEARCH_API_KEY cfg)
       @ ''&cx='' @ fmt (CUSTOM_SEARCH_ENGINE_ID cfg) @ ''&q='' @ quote env query
       @ ''&searchType=image&num=1''"

definition get_image_for_slide ::
  "env \<Rightarrow> config \<Rightarrow> json \<Rightarrow> event list \<Rightarrow> (pyerr + bytes option) \<times> event list" where
  "get_image_for_slide env cfg query w =
     (case keys_not_provided cfg of
        Inl e \<Rightarrow> (Inl e, w)
      | Inr True \<Rightarrow> (Inr None, w)
      | Inr False \<Rightarrow>
          (case query of
             JStr q \<Rightarrow>
               let api_url = image_api_url env cfg q;
                   w1 = w @ [HttpGet api_url]
               in (case do { response \<leftarrow> requests_get env w api_url;
                             search_results \<leftarrow>
                               (if status_ok response then json_body response else None);
                             image_link search_results } of
                     Some (JStr image_url) \<Rightarrow>
                       (Inr (do { image_response \<leftarrow> requests_get env w1 image_url;
                                  if status_ok image_response
                                  then image_to_png env (raw_content image_response)
                                  else None }),
                        w1 @ [HttpGet image_url])
                   | _ \<Rightarrow> (Inr None, w1))
           | _ \<Rightarrow> (Inr None, w)))"

text \<open>Assigning to \<^verbatim>\<open>.text\<close> of a shape or a paragraph: \<^verbatim>\<open>python-pptx\<close> takes a string
  and raises \<^verbatim>\<open>TypeError\<close> on any other object.\<close>

fun set_text :: "json \<Rightarrow> pyerr + string" where
  "set_text (JStr s) = Inr s"
| "set_text _ = Inl TypeError"

text \<open>The body of the three loops \<^verbatim>\<open>for point in points\<close>, which differ in the font size.\<close>

fun add_paragraphs :: "nat \<Rightarrow> json list \<Rightarrow> pyerr + pptx_paragraph list" where
  "add_paragraphs sz [] = Inr []"
| "add_paragraphs sz (point # points) =
     (case set_text point of
        Inl e \<Rightarrow> Inl e
      | Inr s \<Rightarrow>
          (case add_paragraphs sz points of
             Inl e \<Rightarrow> Inl e
           | Inr ps \<Rightarrow>
               Inr (\<lparr>p_text = s, p_level = 0, p_space_after = 8, p_font_size = sz\<rparr> # ps)))"

text \<open>Lines 227 to 239, 247 to 271 and 274 to 286: a slide of layout \<open>lay\<close> with its title, the
  text frame filled from \<open>points\<close> at font size \<open>sz\<close>, and the picture if there is one.\<close>

definition content_slide ::
  "nat \<Rightarrow> nat \<Rightarrow> json \<Rightarrow> json \<Rightarrow> picture option \<Rightarrow> pyerr + slide" where
  "content_slide lay sz title points pic =
     (case set_text title of
        Inl e \<Rightarrow> Inl e
      | Inr t \<Rightarrow>
          (case py_iter points of
             Inl e \<Rightarrow> Inl e
           | Inr pts \<Rightarrow>
               (case add_paragraphs sz pts of
                  Inl e \<Rightarrow> Inl e
                | Inr ps \<Rightarrow>
                    Inr \<lparr>layout = lay, title_text = t, subtitle_text = None,
                         body = Some \<lparr>word_wrap = True, auto_size = TEXT_TO_FIT_SHAPE,
                                      paragraphs = ps\<rparr>,
                         picture = pic\<rparr>)))"

text \<open>Lines 243 to 286, from the image query on.\<close>

definition key_point_slide ::
  "env \<Rightarrow> config \<Rightarrow> json \<Rightarrow> json \<Rightarrow> json \<Rightarrow> event list \<Rightarrow> (pyerr + slide) \<times> event list" where
  "key_point_slide env cfg image_query title points w =
     (case get_image_for_slide env cfg image_query w of
        (Inl e, w') \<Rightarrow> (Inl e, w')
      | (Inr (Some image_stream), w') \<Rightarrow>
          (content_slide 3 18 title points
             (Some \<lparr>pic_stream = image_stream, pic_placeholder = 2\<rparr>), w')
      | (Inr None, w') \<Rightarrow> (content_slide 1 18 title points None, w'))"

text \<open>One pass of the loop of line 216 on the entry \<open>slide_data\<close>: the slide it adds, if any.\<close>

definition loop_body ::
  "env \<Rightarrow> config \<Rightarrow> string \<Rightarrow> json \<Rightarrow> event list \<Rightarrow> (pyerr + slide option) \<times> event list" where
  "loop_body env cfg topic slide_data w =
     (case py_get slide_data ''type'' JNull of
        Inl e \<Rightarrow> (Inl e, w)
      | Inr slide_type \<Rightarrow>
     (case py_get slide_data ''title'' (JStr ''Untitled Slide'') of
        Inl e \<Rightarrow> (Inl e, w)
      | Inr title \<Rightarrow>
     (case py_get slide_data ''points'' (JArr []) of
        Inl e \<Rightarrow> (Inl e, w)
      | Inr points \<Rightarrow>
          if slide_type = JStr ''title_slide'' then
            (case set_text title of
               Inl e \<Rightarrow> (Inl e, w)
             | Inr t \<Rightarrow>
                 (Inr (Some \<lparr>layout = 0, title_text = t,
                             subtitle_text = Some (''A Presentation on '' @ topic),
                             body = None, picture = None\<rparr>), w))
          else if slide_type = JStr ''overview_slide'' \<or> slide_type = JStr ''conclusion_slide'' then
            (map_sum id Some (content_slide 1 15 title points None), w)
          else if slide_type = JStr ''key_point_slide'' then
            (case py_get slide_data ''image_query'' (JStr topic) of
               Inl e \<Rightarrow> (Inl e, w)
             | Inr image_query \<Rightarrow>
                 (case key_point_slide env cfg image_query title points w of
                    (r, w') \<Rightarrow> (map_sum id Some r, w')))
          else (Inr None, w))))"

text \<open>The loop of line 216; \<open>prs\<close> is the list of the slides added so far.\<close>

fun slides_loop ::
  "env \<Rightarrow> config \<Rightarrow> string \<Rightarrow> json list \<Rightarrow> slide list \<Rightarrow> event list
     \<Rightarrow> (pyerr + slide list) \<times> event list" where
  "slides_loop env cfg topic [] prs w = (Inr prs, w)"
| "slides_loop env cfg topic (slide_data # rest) prs w =
     (case loop_body env cfg topic slide_data w of
        (Inl e, w') \<Rightarrow> (Inl e, w')
      | (Inr None, w') \<Rightarrow> slides_loop env cfg topic rest prs w'
      | (Inr (Some s), w') \<Rightarrow> slides_loop env cfg topic rest (prs @ [s]) w')"

definition create_powerpoint_deck ::
  "env \<Rightarrow> config \<Rightarrow> json \<Rightarrow> string \<Rightarrow> event list
     \<Rightarrow> (pyerr + slide list option) \<times> event list" where
  "create_powerpoint_deck env cfg content topic w =
     (case py_in ''slides'' content of
        Inl e \<Rightarrow> (Inl e, w)
      | Inr False \<Rightarrow> (Inr None, w)
      | Inr True \<Rightarrow>
          (case py_getitem content ''slides'' of
             Inl e \<Rightarrow> (Inl e, w)
           | Inr (JArr entries) \<Rightarrow>
               (case slides_loop env cfg topic entries [] w of
                  (Inl e, w') \<Rightarrow> (Inl e, w')
                | (Inr prs, w') \<Rightarrow> (Inr (Some prs), w' @ [PrsSave prs]))
           | Inr _ \<Rightarrow> (Inr None, w)))"

section \<open>The main block\<close>

datatype outcome =
    Uncaught pyerr
  | Exit_no_plan
  | Exit_no_content
  | Not_assembled
  | Saved
  | Save_failed

text \<open>Lines 331 to 340.\<close>

definition save_final_presentation ::
  "env \<Rightarrow> string \<Rightarrow> slide list option \<Rightarrow> event list \<Rightarrow> outcome \<times> event list" where
  "save_final_presentation env presentation_topic ppt_stream w =
     (case ppt_stream of
        Some deck \<Rightarrow>
          let output_filename = ''presentation-'' @ presentation_topic @ ''.pptx'' in
          if file_write env output_filename
          then (Saved, w @ [FileWrite output_filename deck])
          else (Save_failed, w @ [FileWriteFailed output_filename])
      | None \<Rightarrow> (Not_assembled, w))"

text \<open>Lines 298 to 340; the result is how the run ends and the events it caused.\<close>

definition main :: "env \<Rightarrow> config \<Rightarrow> string \<Rightarrow> outcome \<times> event list" where
  "main env cfg presentation_topic =
     (case search_web_for_topic env cfg presentation_topic of
        Inl e \<Rightarrow> (Uncaught e, [])
      | Inr web_context \<Rightarrow>
          let presentation_plan = create_presentation_plan presentation_topic web_context in
          if \<not> truthy presentation_plan then (Exit_no_plan, [])
          else
            let initial_content =
                  generate_presentation_content env presentation_topic web_context presentation_plan
            in
            if \<not> truthy initial_content then (Exit_no_content, [])
            else
              let enriched_content = add_image_queries_to_content env initial_content in
              (case create_powerpoint_deck env cfg enriched_content presentation_topic [] of
                 (Inl e, w) \<Rightarrow> (Uncaught e, w)
               | (Inr ppt_stream, w) \<Rightarrow>
                   save_final_presentation env presentation_topic ppt_stream w))"

section \<open>Vocabulary of the properties\<close>


fun is_text :: "json \<Rightarrow> bool" where
  "is_text (JStr s) = True"
| "is_text _ = False"









text \<open>The paragraph that one pass of a \<^verbatim>\<open>for point in points\<close> loop appends.\<close>

definition bullet :: "nat \<Rightarrow> string \<Rightarrow> pptx_paragraph" where
  "bullet sz s = \<lparr>p_text = s, p_level = 0, p_space_after = 8, p_font_size = sz\<rparr>"




subsection \<open>The aggregation as the specification words it\<close>




subsection \<open>Test doubles\<close>

definition demo_config :: config where
  "demo_config = \<lparr>GOOGLE_SEARCH_API_KEY = Some ''key'', CUSTOM_SEARCH_ENGINE_ID = Some ''cx''\<rparr>"

text \<open>An environment whose search backends fail, whose model answers the two prompts with
  the given replies, whose parser knows the listed texts, whose web serves the listed URLs
  and whose image decoder takes any content that is not empty.\<close>

definition stub ::
  "string option \<Rightarrow> string option \<Rightarrow> (string \<times> json) list
     \<Rightarrow> (string \<times> http_response) list \<Rightarrow> env" where
  "stub content_reply visual_reply parses web =
     \<lparr>quote = (\<lambda>s. s),
      json_loads = map_of parses,
      image_to_png = (\<lambda>b. if b = [] then None else Some b),
      ddg_snippets = (\<lambda>url. None),
      get_json = (\<lambda>url. None),
      generate_content =
        (\<lambda>p. case p of ContentStrategistPrompt t c pl \<Rightarrow> content_reply
                | VisualAssetPrompt c \<Rightarrow> visual_reply),
      requests_get = (\<lambda>w url. map_of web url),
      file_write = (\<lambda>name. True)\<rparr>"

definition offline :: env where
  "offline = stub None None [] []"

text \<open>A content with a title slide, an entry of an unknown type and a key point without
  title and image query; a parsed reply without \<^verbatim>\<open>slides\<close>.\<close>

definition demo_key_point :: "(string \<times> json) list" where
  "demo_key_point =
     [(''type'', JStr ''key_point_slide''), (''points'', JArr [JStr ''Qubits superpose.''])]"

definition demo_entries :: "json list" where
  "demo_entries =
     [JObj [(''type'', JStr ''title_slide''), (''title'', JStr ''Quantum Computing'')],
      JObj [(''type'', JStr ''chart_slide''), (''title'', JStr ''Growth'')],
      JObj demo_key_point]"

definition demo_content :: "(string \<times> json) list" where
  "demo_content = [(''slides'', JArr demo_entries)]"


text \<open>A web on which the image search for \<^verbatim>\<open>AI\<close> finds a link whose download decodes,
  a model whose two replies parse to the content above, and the deck expected from them.\<close>

definition demo_web :: "(string \<times> http_response) list" where
  "demo_web =
     [(''https://www.googleapis.com/customsearch/v1?key=key&cx=cx&q=AI&searchType=image&num=1'',
       \<lparr>status_ok = True,
        json_body = Some (JObj [(''items'', JArr [JObj [(''link'', JStr ''u'')]])]),
        raw_content = []\<rparr>),
      (''u'', \<lparr>status_ok = True, json_body = None, raw_content = [137, 80]\<rparr>)]"

definition demo_deck :: "slide list" where
  "demo_deck =
     [\<lparr>layout = 0, title_text = ''Quantum Computing'',
       subtitle_text = Some ''A Presentation on AI'', body = None, picture = None\<rparr>,
      \<lparr>layout = 3, title_text = ''Untitled Slide'', subtitle_text = None,
       body = Some \<lparr>word_wrap = True, auto_size = TEXT_TO_FIT_SHAPE,
                    paragraphs = [bullet 18 ''Qubits superpose.'']\<rparr>,
       picture = Some \<lparr>pic_stream = [137, 80], pic_placeholder = 2\<rparr>\<rparr>]"

definition demo_env :: env where
  "demo_env = stub (Some ''A'') (Some ''```jsonB```'')
                [(''A'', JObj demo_content), (''B'', JObj demo_content)] demo_web"

section \<open>Properties\<close>

subsection \<open>Strings and dictionaries\<close>







lemma dict_get_absent: "map_of d k = None \<Longrightarrow> dict_get d k dflt = dflt"
  by (simp add: dict_get_def)

lemma dict_get_present: "map_of d k = Some v \<Longrightarrow> dict_get d k dflt = v"
  by (simp add: dict_get_def)

lemma keys_configured: "configured cfg \<Longrightarrow> \<exists>b. keys_not_provided cfg = Inr b"
  by (auto simp: configured_def keys_not_provided_def split: option.splits)

lemma keys_provided_configured: "keys_not_provided cfg = Inr False \<Longrightarrow> configured cfg"
  by (auto simp: configured_def keys_not_provided_def split: option.splits if_splits)


lemma keys_demo: "keys_not_provided demo_config = Inr False"
  by (simp add: keys_not_provided_def demo_config_def)

subsection \<open>ResearchAgent\<close>





lemma search_web_offline:
  "search_web_for_topic offline demo_config topic = Inr ''No specific web context found.''"
  by (simp add: search_web_for_topic_def search_duckduckgo_def search_google_def keys_demo
      google_snippets_def offline_def stub_def strip_def isspace_def)



text \<open>An example with both backends answering: four snippets from DuckDuckGo, of which
  three are kept, and one from Google.\<close>

lemma search_web_example:
  "search_web_for_topic
     (offline\<lparr>ddg_snippets := (\<lambda>url. Some [''a '', ''b'', ''c'', ''d'']),
              get_json := (\<lambda>url. Some (JObj [(''items'', JArr [JObj [(''snippet'', JStr ''e'')],
                                                                   JObj []])]))\<rparr>)
     demo_config ''x''
   = Inr ''a  b c e''"
  by (simp add: search_web_for_topic_def search_duckduckgo_def search_google_def keys_demo
      google_snippets_def offline_def stub_def strip_def isspace_def dict_get_def)

subsection \<open>OrchestratorAgent\<close>

text \<open>
  C5. For every topic and every web context the plan has exactly seven items of the types
  title, overview, four key points, conclusion; the purposes of the key points name the
  topic as the first, second, third and fourth point, the other three purposes are fixed
  texts; the plan does not depend on the web context.
\<close>

theorem create_presentation_plan_shape:
  "\<exists>items. py_getitem (create_presentation_plan topic web_context) ''slides'' = Inr (JArr items)
     \<and> length items = 7
     \<and> map (\<lambda>item. py_getitem item ''type'') items
         = map (\<lambda>t. Inr (JStr t))
             [''title_slide'', ''overview_slide'', ''key_point_slide'', ''key_point_slide'',
              ''key_point_slide'', ''key_point_slide'', ''conclusion_slide'']
     \<and> map (\<lambda>item. py_getitem item ''purpose'') items
         = map (\<lambda>t. Inr (JStr t))
             [''A compelling title for the presentation.'',
              ''An overview describing key talking points.'',
              ''The first key point or trend about '' @ topic @ ''.'',
              ''The second key point or argument about '' @ topic @ ''.'',
              ''The third key point or trend about '' @ topic @ ''.'',
              ''The fourth key point or argument about '' @ topic @ ''.'',
              ''Give Concluding Points.'']
     \<and> create_presentation_plan topic web_context = create_presentation_plan topic other_context"
  by (simp add: create_presentation_plan_def)

lemma truthy_plan: "truthy (create_presentation_plan topic web_context)"
  by (simp add: create_presentation_plan_def)


subsection \<open>ContentStrategistAgent and VisualAssetAgent\<close>

text \<open>
  C6. If the call of the model fails, or the reply does not parse after the fences are
  removed, \<^verbatim>\<open>add_image_queries_to_content\<close> returns its argument.
\<close>

theorem add_image_queries_failure_returns_input:
  assumes "generate_content env (VisualAssetPrompt content) = None
           \<or> (\<exists>text. generate_content env (VisualAssetPrompt content) = Some text
                 \<and> json_loads env (replace (replace (strip text) ''```json'' []) ''```'' []) = None)"
  shows "add_image_queries_to_content env content = content"
  using assms by (auto simp: add_image_queries_to_content_def)

theorem add_image_queries_failure_returns_input_witness:
  "generate_content offline (VisualAssetPrompt (JObj [(''slides'', JArr [])])) = None
   \<and> add_image_queries_to_content offline (JObj [(''slides'', JArr [])])
       = JObj [(''slides'', JArr [])]
   \<and> generate_content (stub None (Some ''```json oops```'') [] [])
         (VisualAssetPrompt (JObj [(''slides'', JArr [])])) = Some ''```json oops```''
   \<and> json_loads (stub None (Some ''```json oops```'') [] [])
         (replace (replace (strip ''```json oops```'') ''```json'' []) ''```'' []) = None
   \<and> add_image_queries_to_content (stub None (Some ''```json oops```'') [] [])
         (JObj [(''slides'', JArr [])])
       = JObj [(''slides'', JArr [])]"
proof -
  have call: "generate_content offline (VisualAssetPrompt (JObj [(''slides'', JArr [])])) = None"
    by (simp add: offline_def stub_def)
  have reply: "generate_content (stub None (Some ''```json oops```'') [] [])
         (VisualAssetPrompt (JObj [(''slides'', JArr [])])) = Some ''```json oops```''"
    by (simp add: stub_def)
  have parse: "json_loads (stub None (Some ''```json oops```'') [] [])
         (replace (replace (strip ''```json oops```'') ''```json'' []) ''```'' []) = None"
    by (simp add: stub_def)
  from add_image_queries_failure_returns_input [of offline "JObj [(''slides'', JArr [])]"] call
  have a: "add_image_queries_to_content offline (JObj [(''slides'', JArr [])])
             = JObj [(''slides'', JArr [])]"
    by blast
  from add_image_queries_failure_returns_input
         [of "stub None (Some ''```json oops```'') [] []" "JObj [(''slides'', JArr [])]"]
       reply parse
  have b: "add_image_queries_to_content (stub None (Some ''```json oops```'') [] [])
             (JObj [(''slides'', JArr [])])
           = JObj [(''slides'', JArr [])]"
    by blast
  from call a reply parse b show ?thesis by blast
qed

lemma clean_example:
  "replace (replace (strip '' ```json{}``` '') ''```json'' []) ''```'' [] = ''{}''"
  by (simp add: strip_def isspace_def)

text \<open>
  C7. If the reply of the model to the content prompt does not parse after the fences are
  removed, \<^verbatim>\<open>generate_presentation_content\<close> returns \<^verbatim>\<open>None\<close>, and the main block
  exits at line 322: nothing is assembled, serialised or written.
\<close>

theorem unparsable_content_halts:
  assumes "search_web_for_topic env cfg topic = Inr web_context"
    and "generate_content env
           (ContentStrategistPrompt topic web_context (create_presentation_plan topic web_context))
         = Some text"
    and "json_loads env (replace (replace (strip text) ''```json'' []) ''```'' []) = None"
  shows "generate_presentation_content env topic web_context
           (create_presentation_plan topic web_context) = JNull
         \<and> main env cfg topic = (Exit_no_content, [])"
proof -
  have "generate_presentation_content env topic web_context
          (create_presentation_plan topic web_context) = JNull"
    using assms(2,3) by (simp add: generate_presentation_content_def)
  then show ?thesis using assms(1) by (simp add: main_def truthy_plan)
qed

lemma search_web_stub:
  "search_web_for_topic (stub a b ps web) demo_config topic
     = Inr ''No specific web context found.''"
  by (simp add: search_web_for_topic_def search_duckduckgo_def search_google_def keys_demo
      google_snippets_def stub_def strip_def isspace_def)

theorem unparsable_content_halts_witness:
  "search_web_for_topic (stub (Some ''I cannot help with that.'') None [] []) demo_config ''AI''
     = Inr ''No specific web context found.''
   \<and> generate_content (stub (Some ''I cannot help with that.'') None [] [])
        (ContentStrategistPrompt ''AI'' ''No specific web context found.''
           (create_presentation_plan ''AI'' ''No specific web context found.''))
       = Some ''I cannot help with that.''
   \<and> json_loads (stub (Some ''I cannot help with that.'') None [] [])
        (replace (replace (strip ''I cannot help with that.'') ''```json'' []) ''```'' []) = None
   \<and> main (stub (Some ''I cannot help with that.'') None [] []) demo_config ''AI''
       = (Exit_no_content, [])"
proof -
  let ?env = "stub (Some ''I cannot help with that.'') None [] []"
  have s: "search_web_for_topic ?env demo_config ''AI'' = Inr ''No specific web context found.''"
    by (rule search_web_stub)
  have g: "generate_content ?env
        (ContentStrategistPrompt ''AI'' ''No specific web context found.''
           (create_presentation_plan ''AI'' ''No specific web context found.''))
       = Some ''I cannot help with that.''"
    by (simp add: stub_def)
  have p: "json_loads ?env
        (replace (replace (strip ''I cannot help with that.'') ''```json'' []) ''```'' []) = None"
    by (simp add: stub_def)
  from unparsable_content_halts [OF s g p]
  have "main ?env demo_config ''AI'' = (Exit_no_content, [])" by blast
  with s g p show ?thesis by blast
qed

subsection \<open>Image acquisition\<close>


lemma get_image_first_request:
  assumes "keys_not_provided cfg = Inr False"
  shows "\<exists>evs. snd (get_image_for_slide env cfg (JStr q) w)
                  = w @ HttpGet (image_api_url env cfg q) # evs"
  using assms
  by (auto simp: get_image_for_slide_def Let_def split: option.splits json.splits)

lemma get_image_not_text:
  assumes "\<not> is_text q" "configured cfg"
  shows "get_image_for_slide env cfg q w = (Inr None, w)"
proof -
  from assms(2) obtain b where "keys_not_provided cfg = Inr b"
    using keys_configured by blast
  with assms(1) show ?thesis
    by (cases q; cases b) (simp_all add: get_image_for_slide_def)
qed


text \<open>The failures after a link was found: the download raises, its status is an error, or
  the content does not decode or encode.\<close>

lemma image_download_or_decode_failure:
  assumes "keys_not_provided cfg = Inr False"
    and "requests_get env w (image_api_url env cfg q) = Some response"
    and "status_ok response"
    and "json_body response = Some (JObj [(''items'', JArr [JObj [(''link'', JStr image_url)]])])"
    and "requests_get env (w @ [HttpGet (image_api_url env cfg q)]) image_url = None
         \<or> (\<exists>image_response.
               requests_get env (w @ [HttpGet (image_api_url env cfg q)]) image_url
                 = Some image_response
               \<and> (\<not> status_ok image_response
                   \<or> image_to_png env (raw_content image_response) = None))"
  shows "get_image_for_slide env cfg (JStr q) w
           = (Inr None, w @ [HttpGet (image_api_url env cfg q), HttpGet image_url])"
  using assms
  by (auto simp: get_image_for_slide_def image_link_def Let_def)


subsection \<open>One pass of the assembly loop\<close>




lemma loop_body_key_point:
  assumes "map_of d ''type'' = Some (JStr ''key_point_slide'')"
  shows "loop_body env cfg topic (JObj d) w =
           (case key_point_slide env cfg (dict_get d ''image_query'' (JStr topic))
                   (dict_get d ''title'' (JStr ''Untitled Slide''))
                   (dict_get d ''points'' (JArr [])) w of
              (r, w') \<Rightarrow> (map_sum id Some r, w'))"
  using assms by (simp add: loop_body_def dict_get_present)

lemma snd_key_point_slide:
  "snd (key_point_slide env cfg q t p w) = snd (get_image_for_slide env cfg q w)"
  by (simp add: key_point_slide_def split: prod.splits sum.splits option.splits)



subsection \<open>The deck\<close>


text \<open>The same happens on an entry that is not a dictionary: it has no method \<^verbatim>\<open>get\<close>.\<close>

lemma non_dict_entry_raises:
  "fst (create_powerpoint_deck offline demo_config
          (JObj [(''slides'', JArr [JStr ''title_slide''])]) ''AI'' [])
     = Inl AttributeError"
  by (simp add: create_powerpoint_deck_def loop_body_def)







subsection \<open>The image query\<close>

text \<open>
  C4. For a key point without the key \<^verbatim>\<open>image_query\<close>, the argument of
  \<^verbatim>\<open>_get_image_for_slide\<close> is the topic; when the keys are provided, the first request
  of the pass is the image search for the quoted topic.
\<close>

theorem image_query_defaults_to_topic:
  assumes "map_of d ''type'' = Some (JStr ''key_point_slide'')"
    and "map_of d ''image_query'' = None"
  shows "loop_body env cfg topic (JObj d) w =
           (case key_point_slide env cfg (JStr topic)
                   (dict_get d ''title'' (JStr ''Untitled Slide''))
                   (dict_get d ''points'' (JArr [])) w of
              (r, w') \<Rightarrow> (map_sum id Some r, w'))
         \<and> (keys_not_provided cfg = Inr False \<longrightarrow>
              (\<exists>evs. snd (loop_body env cfg topic (JObj d) w)
                        = w @ HttpGet (image_api_url env cfg topic) # evs))"
proof -
  have eq: "loop_body env cfg topic (JObj d) w =
           (case key_point_slide env cfg (JStr topic)
                   (dict_get d ''title'' (JStr ''Untitled Slide''))
                   (dict_get d ''points'' (JArr [])) w of
              (r, w') \<Rightarrow> (map_sum id Some r, w'))"
    using loop_body_key_point [OF assms(1)] assms(2) by (simp add: dict_get_absent)
  have "snd (loop_body env cfg topic (JObj d) w)
          = snd (get_image_for_slide env cfg (JStr topic) w)"
    unfolding eq by (simp add: split_beta snd_key_point_slide)
  with eq get_image_first_request [of cfg env topic w] show ?thesis by simp
qed

theorem image_query_defaults_to_topic_witness:
  "map_of demo_key_point ''type'' = Some (JStr ''key_point_slide'')
   \<and> map_of demo_key_point ''image_query'' = None
   \<and> keys_not_provided demo_config = Inr False
   \<and> (\<exists>evs. snd (loop_body offline demo_config ''Quantum Computing'' (JObj demo_key_point) [])
               = [] @ HttpGet (image_api_url offline demo_config ''Quantum Computing'') # evs)"
proof -
  have ty: "map_of demo_key_point ''type'' = Some (JStr ''key_point_slide'')"
    by (simp add: demo_key_point_def)
  have q: "map_of demo_key_point ''image_query'' = None"
    by (simp add: demo_key_point_def)
  from image_query_defaults_to_topic [OF ty q, of offline demo_config "''Quantum Computing''" "[]"]
    keys_demo
  have "\<exists>evs. snd (loop_body offline demo_config ''Quantum Computing'' (JObj demo_key_point) [])
               = [] @ HttpGet (image_api_url offline demo_config ''Quantum Computing'') # evs"
    by blast
  with ty q keys_demo show ?thesis by blast
qed

text \<open>
  C10. For a key point that has the key \<^verbatim>\<open>image_query\<close>, the argument of
  \<^verbatim>\<open>_get_image_for_slide\<close> is the value of the key, whatever it is, and not the topic:
  when the keys are provided, a string, also the empty one, is what the search request
  asks for, and for any other value, such as \<^verbatim>\<open>None\<close>, no request is made.
\<close>

theorem image_query_present_is_passed:
  assumes "map_of d ''type'' = Some (JStr ''key_point_slide'')"
    and "map_of d ''image_query'' = Some v"
  shows "loop_body env cfg topic (JObj d) w =
           (case key_point_slide env cfg v
                   (dict_get d ''title'' (JStr ''Untitled Slide''))
                   (dict_get d ''points'' (JArr [])) w of
              (r, w') \<Rightarrow> (map_sum id Some r, w'))
         \<and> (keys_not_provided cfg = Inr False \<longrightarrow>
              (\<exists>evs. snd (loop_body env cfg topic (JObj d) w)
                        = w @ (case v of JStr q \<Rightarrow> HttpGet (image_api_url env cfg q) # evs
                                | _ \<Rightarrow> [])))"
proof -
  have eq: "loop_body env cfg topic (JObj d) w =
           (case key_point_slide env cfg v
                   (dict_get d ''title'' (JStr ''Untitled Slide''))
                   (dict_get d ''points'' (JArr [])) w of
              (r, w') \<Rightarrow> (map_sum id Some r, w'))"
    using loop_body_key_point [OF assms(1)] assms(2) by (simp add: dict_get_present)
  have snd_eq: "snd (loop_body env cfg topic (JObj d) w) = snd (get_image_for_slide env cfg v w)"
    unfolding eq by (simp add: split_beta snd_key_point_slide)
  have "\<exists>evs. snd (get_image_for_slide env cfg v w)
                 = w @ (case v of JStr q \<Rightarrow> HttpGet (image_api_url env cfg q) # evs | _ \<Rightarrow> [])"
    if k: "keys_not_provided cfg = Inr False"
  proof (cases "is_text v")
    case True
    then obtain q where "v = JStr q" by (cases v) simp_all
    with get_image_first_request [OF k, of env q w] show ?thesis by simp
  next
    case False
    from get_image_not_text [OF False keys_provided_configured [OF k], of env w] False
    show ?thesis by (cases v) simp_all
  qed
  with eq snd_eq show ?thesis by simp
qed

theorem image_query_present_is_passed_witness:
  "map_of ((''image_query'', JNull) # demo_key_point) ''type'' = Some (JStr ''key_point_slide'')
   \<and> map_of ((''image_query'', JNull) # demo_key_point) ''image_query'' = Some JNull
   \<and> map_of ((''image_query'', JStr []) # demo_key_point) ''type'' = Some (JStr ''key_point_slide'')
   \<and> map_of ((''image_query'', JStr []) # demo_key_point) ''image_query'' = Some (JStr [])
   \<and> keys_not_provided demo_config = Inr False
   \<and> snd (loop_body offline demo_config ''AI'' (JObj ((''image_query'', JNull) # demo_key_point)) [])
       = []
   \<and> (\<exists>evs. snd (loop_body offline demo_config ''AI''
                   (JObj ((''image_query'', JStr []) # demo_key_point)) [])
               = [] @ HttpGet (image_api_url offline demo_config []) # evs)"
proof -
  let ?n = "(''image_query'', JNull) # demo_key_point"
  let ?e = "(''image_query'', JStr []) # demo_key_point"
  have tn: "map_of ?n ''type'' = Some (JStr ''key_point_slide'')"
    and te: "map_of ?e ''type'' = Some (JStr ''key_point_slide'')"
    by (simp_all add: demo_key_point_def)
  have qn: "map_of ?n ''image_query'' = Some JNull"
    and qe: "map_of ?e ''image_query'' = Some (JStr [])"
    by simp_all
  from image_query_present_is_passed [OF tn qn, of offline demo_config "''AI''" "[]"] keys_demo
  have "\<exists>evs. snd (loop_body offline demo_config ''AI'' (JObj ?n) [])
               = [] @ (case JNull of JStr q \<Rightarrow> HttpGet (image_api_url offline demo_config q) # evs
                       | _ \<Rightarrow> [])"
    by blast
  then have n: "snd (loop_body offline demo_config ''AI'' (JObj ?n) []) = []"
    by simp
  from image_query_present_is_passed [OF te qe, of offline demo_config "''AI''" "[]"] keys_demo
  have "\<exists>evs. snd (loop_body offline demo_config ''AI'' (JObj ?e) [])
               = [] @ (case JStr [] of
                         JStr q \<Rightarrow> HttpGet (image_api_url offline demo_config q) # evs
                       | _ \<Rightarrow> [])"
    by blast
  then have e: "\<exists>evs. snd (loop_body offline demo_config ''AI'' (JObj ?e) [])
               = [] @ HttpGet (image_api_url offline demo_config []) # evs"
    by simp
  from tn qn te qe keys_demo n e show ?thesis by blast
qed

subsection \<open>Missing fields\<close>



subsection \<open>A complete run\<close>

text \<open>A run in which the model answers both prompts, the image search finds a link and the
  download decodes: the key point takes the two-content layout with the picture in
  placeholder 2, and the deck of two slides is serialised once and written once.\<close>

lemma main_example:
  "main demo_env demo_config ''AI''
   = (Saved,
      [HttpGet ''https://www.googleapis.com/customsearch/v1?key=key&cx=cx&q=AI&searchType=image&num=1'',
       HttpGet ''u'', PrsSave demo_deck, FileWrite ''presentation-AI.pptx'' demo_deck])"
proof -
  let ?wc = "''No specific web context found.''"
  have s: "search_web_for_topic demo_env demo_config ''AI'' = Inr ?wc"
    unfolding demo_env_def by (rule search_web_stub)
  have g: "generate_presentation_content demo_env ''AI'' ?wc (create_presentation_plan ''AI'' ?wc)
             = JObj demo_content"
    by (simp add: generate_presentation_content_def demo_env_def stub_def strip_def isspace_def)
  have e: "add_image_queries_to_content demo_env (JObj demo_content) = JObj demo_content"
    by (simp add: add_image_queries_to_content_def demo_env_def stub_def strip_def isspace_def)
  have img: "get_image_for_slide demo_env demo_config (JStr ''AI'') []
               = (Inr (Some [137, 80]),
                  [HttpGet ''https://www.googleapis.com/customsearch/v1?key=key&cx=cx&q=AI&searchType=image&num=1'',
                   HttpGet ''u''])"
    by (simp add: get_image_for_slide_def keys_not_provided_def image_api_url_def demo_env_def
        stub_def demo_web_def demo_config_def image_link_def Let_def)
  have deck: "create_powerpoint_deck demo_env demo_config (JObj demo_content) ''AI'' []
                = (Inr (Some demo_deck),
                   [HttpGet ''https://www.googleapis.com/customsearch/v1?key=key&cx=cx&q=AI&searchType=image&num=1'',
                    HttpGet ''u'', PrsSave demo_deck])"
    by (simp add: create_powerpoint_deck_def demo_content_def demo_entries_def demo_key_point_def
        loop_body_def dict_get_def key_point_slide_def img content_slide_def demo_deck_def
        bullet_def)
  have w: "file_write demo_env ''presentation-AI.pptx''"
    by (simp add: demo_env_def stub_def)
  have t: "demo_content \<noteq> []"
    by (simp add: demo_content_def)
  show ?thesis
    by (simp add: main_def s truthy_plan g e t deck save_final_presentation_def w)
qed

end
